theory Spec2Isabelle
  imports Main
begin

section \<open>Promises and errors\<close>

text \<open>
  A JavaScript \<open>Error\<close> carries a message. A settled promise is either rejected with an
  error (\<open>Inl\<close>) or resolved with a value (\<open>Inr\<close>). JavaScript's \<open>null\<close> is \<open>None\<close>.
\<close>

datatype js_error = Error (message: string)

type_synonym 'a promise = "js_error + 'a"

text \<open>\<open>p.then(f)\<close>: a rejection passes through, a resolved value is handed to \<open>f\<close>,
  which returns or throws.\<close>

definition then_promise :: "('a \<Rightarrow> 'b promise) \<Rightarrow> 'a promise \<Rightarrow> 'b promise" where
  "then_promise f p = (case p of Inl error \<Rightarrow> Inl error | Inr v \<Rightarrow> f v)"

text \<open>\<open>p.catch(h)\<close>: a resolved value passes through, a rejection is handed to \<open>h\<close>.\<close>

definition catch_promise :: "(js_error \<Rightarrow> 'a promise) \<Rightarrow> 'a promise \<Rightarrow> 'a promise" where
  "catch_promise h p = (case p of Inl error \<Rightarrow> h error | Inr v \<Rightarrow> Inr v)"

text \<open>The handler \<open>(error) => { throw error; }\<close> that closes every method of \<open>Expenses\<close>.\<close>

definition rethrow :: "js_error \<Rightarrow> 'a promise" where
  "rethrow error = Inl error"

section \<open>The data store\<close>

text \<open>
  Table rows, with the columns the statements of \<open>src/models/plugin/expenses.js\<close> name.
  Field prefixes are the aliases of the statements: \<open>PE\<close> for \<open>tb_plugin_expenses\<close>,
  \<open>CM\<close> for \<open>tb_circle_member\<close>, \<open>EC\<close> for \<open>tb_plugin_expenses_categories\<close>, \<open>PEB\<close> for
  \<open>tb_plugin_expenses_budget\<close>. Identifiers are natural numbers, amounts are integers in
  the smallest currency unit, dates are integers that grow with time.
\<close>

record category_row =
  EC_id :: nat
  EC_categoryName :: string

record bill_row =
  PE_id :: nat
  PE_circleId :: nat
  PE_userId :: nat
  PE_billName :: string
  PE_billAmount :: int
  PE_billCategoryId :: nat
  PE_billDate :: int

record member_row =
  CM_userId :: nat
  CM_circleId :: nat
  CM_isOwner :: bool
  CM_joinedAt :: "int option"

record budget_row =
  PEB_id :: nat
  PEB_circleId :: nat
  PEB_userId :: nat
  PEB_budgetName :: string
  PEB_budgetAmount :: int
  PEB_budgetStartDate :: int
  PEB_budgetEndDate :: int

text \<open>The circle table is named by the data model only; no statement of the sources
  reads it. It serves the circle service below.\<close>

record circle_row =
  C_id :: nat
  C_name :: string
  C_ownerId :: nat

text \<open>The user table is named by the data model only; of a user the store of this
  development keeps the internal id and the email.\<close>

record user_row =
  U_id :: nat
  U_email :: string

text \<open>
  The store: the tables in insertion order, the next identifier of each table that
  generates one (the INSERT statements give no id and read \<open>insertId\<close> back), and the
  fault, if any, that the connection is in (then every statement is rejected with it).
\<close>

record data_store =
  tb_plugin_expenses_categories :: "category_row list"
  tb_plugin_expenses :: "bill_row list"
  tb_plugin_expenses_budget :: "budget_row list"
  tb_circle_member :: "member_row list"
  tb_circle :: "circle_row list"
  tb_user :: "user_row list"
  next_expenses_id :: nat
  next_budget_id :: nat
  next_circle_id :: nat
  fault :: "js_error option"

text \<open>The objects a SELECT resolves with: one per row, with the selected columns.\<close>

record bill_item =
  bill_id :: nat
  billName :: string
  billAmount :: int
  billCategoryId :: nat
  categoryNAme :: string
  billDate :: int

record budget_item =
  budget_id :: nat
  budgetName :: string
  budgetAmount :: int
  budgetStartDate :: int
  budgetEndDate :: int

text \<open>The result descriptor an INSERT or DELETE resolves with.\<close>

record result_descriptor =
  insertId :: nat
  affectedRows :: nat

text \<open>\<open>parseInt\<close> of a number that is a natural number is that number.\<close>

definition parseInt :: "nat \<Rightarrow> int" where
  "parseInt n = int n"

section \<open>The statements\<close>

text \<open>\<open>ORDER BY key DESC\<close>: largest key first; rows with equal keys keep their order.\<close>

definition order_by_desc :: "('r \<Rightarrow> int) \<Rightarrow> 'r list \<Rightarrow> 'r list" where
  "order_by_desc key rows = sort_key (\<lambda>r. - key r) rows"

text \<open>\<open>SELECT PE.id, PE.categoryName FROM tb_plugin_expenses_categories AS PE\<close>\<close>

definition select_categories :: "data_store \<Rightarrow> category_row list" where
  "select_categories db =
     map (\<lambda>PE. \<lparr>EC_id = EC_id PE, EC_categoryName = EC_categoryName PE\<rparr>)
       (tb_plugin_expenses_categories db)"

text \<open>
  \<open>FROM tb_plugin_expenses AS PE INNER JOIN tb_circle_member AS CM
  on PE.circleId = CM.circleId INNER JOIN tb_plugin_expenses_categories AS EC
  on PE.billCategoryId = EC.id WHERE CM.userId = ? AND CM.circleId = ?\<close>
\<close>

definition bills_joined ::
  "nat \<Rightarrow> nat \<Rightarrow> data_store \<Rightarrow> (bill_row \<times> member_row \<times> category_row) list" where
  "bills_joined userId circleId db =
     [(PE, CM, EC).
        PE \<leftarrow> tb_plugin_expenses db,
        CM \<leftarrow> tb_circle_member db, PE_circleId PE = CM_circleId CM,
        EC \<leftarrow> tb_plugin_expenses_categories db, PE_billCategoryId PE = EC_id EC,
        CM_userId CM = userId \<and> CM_circleId CM = circleId]"

text \<open>\<open>SELECT PE.id, PE.billName, PE.billAmount, PE.billCategoryId, EC.categoryNAme,
  PE.billDate\<close>\<close>

definition bill_columns :: "bill_row \<times> member_row \<times> category_row \<Rightarrow> bill_item" where
  "bill_columns j = (case j of (PE, CM, EC) \<Rightarrow>
     \<lparr>bill_id = PE_id PE, billName = PE_billName PE, billAmount = PE_billAmount PE,
      billCategoryId = PE_billCategoryId PE, categoryNAme = EC_categoryName EC,
      billDate = PE_billDate PE\<rparr>)"

text \<open>The whole statement of \<open>getBills\<close>, with \<open>ORDER BY PE.billDate DESC\<close>.\<close>

definition select_bills :: "nat \<Rightarrow> nat \<Rightarrow> data_store \<Rightarrow> bill_item list" where
  "select_bills userId circleId db =
     map bill_columns
       (order_by_desc (\<lambda>j. PE_billDate (fst j)) (bills_joined userId circleId db))"

text \<open>
  Modelled from the spec: the foreign keys of the schema, which is not among the sources.
  The store enforces foreign-key relationships: a bill names a circle, a user (its
  recorder) and a bill category, and a budget names a circle and a user. A statement
  that violates a constraint fails with an error of the store and changes no table.
\<close>

definition constraint_violation :: js_error where
  "constraint_violation = Error ''a foreign key constraint fails''"

definition bill_references :: "nat \<Rightarrow> nat \<Rightarrow> nat \<Rightarrow> data_store \<Rightarrow> bool" where
  "bill_references circleId userId categoryId db =
     (circleId \<in> set (map C_id (tb_circle db)) \<and>
      userId \<in> set (map U_id (tb_user db)) \<and>
      categoryId \<in> set (map EC_id (tb_plugin_expenses_categories db)))"

definition budget_references :: "nat \<Rightarrow> nat \<Rightarrow> data_store \<Rightarrow> bool" where
  "budget_references circleId userId db =
     (circleId \<in> set (map C_id (tb_circle db)) \<and>
      userId \<in> set (map U_id (tb_user db)))"

text \<open>
  A statement that writes either fails with an error (\<open>Inl\<close>) or gives its result
  descriptor and the store after it (\<open>Inr\<close>).

  \<open>INSERT INTO tb_plugin_expenses (circleId, userId, billName, billAmount,
  billCategoryId, billDate) VALUES (?, ?, ?, ?, ?, ?)\<close>
\<close>

definition insert_bill ::
  "nat \<Rightarrow> nat \<Rightarrow> string \<Rightarrow> int \<Rightarrow> nat \<Rightarrow> int \<Rightarrow> data_store
     \<Rightarrow> js_error + result_descriptor \<times> data_store" where
  "insert_bill circleId userId name amount categoryId date db =
     (if bill_references circleId userId categoryId db
      then
        (let n = next_expenses_id db;
             row = \<lparr>PE_id = n, PE_circleId = circleId, PE_userId = userId,
                    PE_billName = name, PE_billAmount = amount,
                    PE_billCategoryId = categoryId, PE_billDate = date\<rparr>
         in Inr (\<lparr>insertId = n, affectedRows = 1\<rparr>,
                 db\<lparr>tb_plugin_expenses := tb_plugin_expenses db @ [row],
                    next_expenses_id := n + 1\<rparr>))
      else Inl constraint_violation)"

text \<open>\<open>DELETE from tb_plugin_expenses WHERE id = ? AND circleId=?\<close>\<close>

definition delete_bill ::
  "nat \<Rightarrow> nat \<Rightarrow> data_store \<Rightarrow> js_error + result_descriptor \<times> data_store" where
  "delete_bill billId circleId db =
     (let hit = (\<lambda>PE. PE_id PE = billId \<and> PE_circleId PE = circleId)
      in Inr (\<lparr>insertId = 0, affectedRows = length (filter hit (tb_plugin_expenses db))\<rparr>,
              db\<lparr>tb_plugin_expenses :=
                   filter (\<lambda>PE. \<not> hit PE) (tb_plugin_expenses db)\<rparr>))"

text \<open>\<open>INSERT INTO tb_plugin_expenses_budget (circleId, userId, budgetName, budgetAmount,
  budgetStartDate, budgetEndDate) VALUES (?, ?, ?, ?, ?, ?)\<close>\<close>

definition insert_budget ::
  "nat \<Rightarrow> nat \<Rightarrow> string \<Rightarrow> int \<Rightarrow> int \<Rightarrow> int \<Rightarrow> data_store
     \<Rightarrow> js_error + result_descriptor \<times> data_store" where
  "insert_budget circleId userId name amount startDate endDate db =
     (if budget_references circleId userId db
      then
        (let n = next_budget_id db;
             row = \<lparr>PEB_id = n, PEB_circleId = circleId, PEB_userId = userId,
                    PEB_budgetName = name, PEB_budgetAmount = amount,
                    PEB_budgetStartDate = startDate, PEB_budgetEndDate = endDate\<rparr>
         in Inr (\<lparr>insertId = n, affectedRows = 1\<rparr>,
                 db\<lparr>tb_plugin_expenses_budget := tb_plugin_expenses_budget db @ [row],
                    next_budget_id := n + 1\<rparr>))
      else Inl constraint_violation)"

text \<open>
  \<open>FROM tb_plugin_expenses_budget AS PEB INNER JOIN tb_circle_member AS CM
  on PEB.circleId = CM.circleId WHERE CM.userId = ? AND CM.circleId = ?\<close>
\<close>

definition budgets_joined ::
  "nat \<Rightarrow> nat \<Rightarrow> data_store \<Rightarrow> (budget_row \<times> member_row) list" where
  "budgets_joined userId circleId db =
     [(PEB, CM).
        PEB \<leftarrow> tb_plugin_expenses_budget db,
        CM \<leftarrow> tb_circle_member db, PEB_circleId PEB = CM_circleId CM,
        CM_userId CM = userId \<and> CM_circleId CM = circleId]"

text \<open>\<open>SELECT PEB.id, PEB.budgetName, PEB.budgetAmount, PEB.budgetStartDate,
  PEB.budgetEndDate\<close>\<close>

definition budget_columns :: "budget_row \<times> member_row \<Rightarrow> budget_item" where
  "budget_columns j = (case j of (PEB, CM) \<Rightarrow>
     \<lparr>budget_id = PEB_id PEB, budgetName = PEB_budgetName PEB,
      budgetAmount = PEB_budgetAmount PEB, budgetStartDate = PEB_budgetStartDate PEB,
      budgetEndDate = PEB_budgetEndDate PEB\<rparr>)"

text \<open>The whole statement of \<open>getBudgets\<close>, with \<open>ORDER BY PEB.budgetStartDate DESC\<close>.\<close>

definition select_budgets :: "nat \<Rightarrow> nat \<Rightarrow> data_store \<Rightarrow> budget_item list" where
  "select_budgets userId circleId db =
     map budget_columns
       (order_by_desc (\<lambda>j. PEB_budgetStartDate (fst j)) (budgets_joined userId circleId db))"

text \<open>\<open>DELETE from tb_plugin_expenses_budget WHERE id = ? AND circleId=?\<close>\<close>

definition delete_budget ::
  "nat \<Rightarrow> nat \<Rightarrow> data_store \<Rightarrow> js_error + result_descriptor \<times> data_store" where
  "delete_budget budgetId circleId db =
     (let hit = (\<lambda>PEB. PEB_id PEB = budgetId \<and> PEB_circleId PEB = circleId)
      in Inr (\<lparr>insertId = 0,
                affectedRows = length (filter hit (tb_plugin_expenses_budget db))\<rparr>,
              db\<lparr>tb_plugin_expenses_budget :=
                   filter (\<lambda>PEB. \<not> hit PEB) (tb_plugin_expenses_budget db)\<rparr>))"

section \<open>The query primitive\<close>

text \<open>
  Modelled from the spec: \<open>query\<close> of \<open>core/database\<close>, which is not among the sources.
  It executes a parameterized statement and resolves with an array of records (a SELECT)
  or with a result descriptor holding \<open>insertId\<close> and \<open>affectedRows\<close> (an INSERT or a
  DELETE), and it is rejected on any underlying fault: the fault of the connection, or
  the constraint violation of the statement. A rejected statement leaves the tables as
  they were.
\<close>

definition query_rows :: "(data_store \<Rightarrow> 'r list) \<Rightarrow> data_store \<Rightarrow> ('r list option) promise" where
  "query_rows statement db =
     (case fault db of Some error \<Rightarrow> Inl error | None \<Rightarrow> Inr (Some (statement db)))"

definition query_write ::
  "(data_store \<Rightarrow> js_error + result_descriptor \<times> data_store) \<Rightarrow> data_store
     \<Rightarrow> (result_descriptor option) promise \<times> data_store" where
  "query_write statement db =
     (case fault db of
        Some error \<Rightarrow> (Inl error, db)
      | None \<Rightarrow>
          (case statement db of
             Inl error \<Rightarrow> (Inl error, db)
           | Inr (result, db') \<Rightarrow> (Inr (Some result), db')))"

section \<open>The class \<open>Expenses\<close>\<close>

text \<open>The callbacks given to \<open>then\<close>, one per method, on what the query resolved with.\<close>

definition getBillCategories_then :: "category_row list option \<Rightarrow> category_row list option" where
  "getBillCategories_then categories =
     (case categories of
        None \<Rightarrow> None
      | Some cs \<Rightarrow> if length cs > 0 then Some (map (\<lambda>item. item) cs) else None)"

definition getBills_then :: "bill_item list option \<Rightarrow> bill_item list option" where
  "getBills_then bills =
     (case bills of
        None \<Rightarrow> None
      | Some bs \<Rightarrow> if length bs \<ge> 0 then Some (map (\<lambda>item. item) bs) else None)"

definition addBill_then :: "result_descriptor option \<Rightarrow> int" where
  "addBill_then result =
     (case result of Some r \<Rightarrow> parseInt (insertId r) | None \<Rightarrow> 0)"

definition removeBill_then :: "result_descriptor option \<Rightarrow> int" where
  "removeBill_then result =
     (case result of Some r \<Rightarrow> parseInt (affectedRows r) | None \<Rightarrow> 0)"

definition addBudget_then :: "result_descriptor option \<Rightarrow> int" where
  "addBudget_then result =
     (case result of Some r \<Rightarrow> parseInt (insertId r) | None \<Rightarrow> 0)"

definition getBudgets_then :: "budget_item list option \<Rightarrow> budget_item list option" where
  "getBudgets_then budgets =
     (case budgets of
        None \<Rightarrow> None
      | Some bs \<Rightarrow> if length bs \<ge> 0 then Some (map (\<lambda>item. item) bs) else None)"

definition removeBudget_then :: "result_descriptor option \<Rightarrow> int" where
  "removeBudget_then result =
     (case result of Some r \<Rightarrow> parseInt (affectedRows r) | None \<Rightarrow> 0)"

text \<open>The methods: \<open>query(...).then(...).catch(...)\<close>. A method that writes returns the
  store after the statement as well.\<close>

definition getBillCategories :: "data_store \<Rightarrow> (category_row list option) promise" where
  "getBillCategories db =
     catch_promise rethrow
       (then_promise (\<lambda>categories. Inr (getBillCategories_then categories))
          (query_rows select_categories db))"

definition getBills :: "nat \<Rightarrow> nat \<Rightarrow> data_store \<Rightarrow> (bill_item list option) promise" where
  "getBills userId circleId db =
     catch_promise rethrow
       (then_promise (\<lambda>bills. Inr (getBills_then bills))
          (query_rows (select_bills userId circleId) db))"

definition addBill ::
  "nat \<Rightarrow> nat \<Rightarrow> string \<Rightarrow> int \<Rightarrow> nat \<Rightarrow> int \<Rightarrow> data_store \<Rightarrow> int promise \<times> data_store" where
  "addBill circleId userId name amount categoryId date db =
     (case query_write (insert_bill circleId userId name amount categoryId date) db of
        (p, db') \<Rightarrow> (catch_promise rethrow (then_promise (\<lambda>result. Inr (addBill_then result)) p), db'))"

definition removeBill :: "nat \<Rightarrow> nat \<Rightarrow> nat \<Rightarrow> data_store \<Rightarrow> int promise \<times> data_store" where
  "removeBill userId billId circleId db =
     (case query_write (delete_bill billId circleId) db of
        (p, db') \<Rightarrow> (catch_promise rethrow (then_promise (\<lambda>result. Inr (removeBill_then result)) p), db'))"

definition addBudget ::
  "nat \<Rightarrow> nat \<Rightarrow> string \<Rightarrow> int \<Rightarrow> int \<Rightarrow> int \<Rightarrow> data_store \<Rightarrow> int promise \<times> data_store" where
  "addBudget circleId userId name amount startDate endDate db =
     (case query_write (insert_budget circleId userId name amount startDate endDate) db of
        (p, db') \<Rightarrow> (catch_promise rethrow (then_promise (\<lambda>result. Inr (addBudget_then result)) p), db'))"

definition getBudgets :: "nat \<Rightarrow> nat \<Rightarrow> data_store \<Rightarrow> (budget_item list option) promise" where
  "getBudgets userId circleId db =
     catch_promise rethrow
       (then_promise (\<lambda>budgets. Inr (getBudgets_then budgets))
          (query_rows (select_budgets userId circleId) db))"

definition removeBudget :: "nat \<Rightarrow> nat \<Rightarrow> nat \<Rightarrow> data_store \<Rightarrow> int promise \<times> data_store" where
  "removeBudget userId budgetId circleId db =
     (case query_write (delete_budget budgetId circleId) db of
        (p, db') \<Rightarrow> (catch_promise rethrow (then_promise (\<lambda>result. Inr (removeBudget_then result)) p), db'))"

section \<open>The circle routes\<close>

text \<open>
  The authenticated user that \<open>passport\<close> leaves in \<open>req.user\<close>; the handlers read \<open>id\<close>
  and \<open>email\<close>.
\<close>

record auth_user =
  user_id :: nat
  user_email :: string

text \<open>An element of the list of circles of a user, as the route documents it.\<close>

record circle_item =
  circle_id :: nat
  circle_name :: string
  isOwner :: bool
  joinedAt :: "int option"

text \<open>
  Modelled from the spec: the uniform JSON envelope, built by the class \<open>Transport\<close> of
  \<open>models/transport/transport\<close>, which is not among the sources. It holds the status
  id, the list of errors or \<open>null\<close>, and the data; the property \<open>data\<close> can be deleted.
\<close>

datatype payload = CircleId nat | Circles "circle_item list"

datatype data_property = Deleted | Null | Data payload

record transport =
  status_id :: nat
  status_errors :: "string list option"
  data :: data_property

definition Transport :: "nat \<Rightarrow> string list option \<Rightarrow> payload option \<Rightarrow> transport" where
  "Transport n errors d =
     \<lparr>status_id = n, status_errors = errors,
      data = (case d of None \<Rightarrow> Null | Some v \<Rightarrow> Data v)\<rparr>"

definition delete_data :: "transport \<Rightarrow> transport" where
  "delete_data t = t\<lparr>data := Deleted\<rparr>"

text \<open>
  What a handler answers: \<open>res.status(n).json(t)\<close> (\<open>res.json(t)\<close> answers with status
  200), or one of the two helpers of \<open>core/express/errors\<close>, which are not among the
  sources and stay opaque: \<open>formatError404Json(res)\<close> and \<open>formatError500Json(res, error)\<close>.
\<close>

datatype response =
    Json nat transport
  | FormatError404Json
  | FormatError500Json js_error

text \<open>
  The class \<open>CircleService\<close> of \<open>services/circleService\<close> is not among the sources: the
  handlers take it as a parameter, over any type of state. The two reads return a
  promise; \<open>addNewCircle\<close> returns the state after it as well.
\<close>

record 's circle_service =
  getNumberCirclesByOwner :: "nat \<Rightarrow> 's \<Rightarrow> int promise"
  addNewCircle :: "nat \<Rightarrow> string \<Rightarrow> string \<Rightarrow> 's \<Rightarrow> nat promise \<times> 's"
  GetCircleByUser :: "nat \<Rightarrow> 's \<Rightarrow> (circle_item list option) promise"

definition free_account_limit :: string where
  "free_account_limit = ''You reached the free account limit.''"

text \<open>The first \<open>then\<close> of \<open>/create\<close>: the user can only create 2 circles.\<close>

definition create_quota :: "int \<Rightarrow> int promise" where
  "create_quota result =
     (if result < 2 then Inr result else Inl (Error free_account_limit))"

text \<open>The \<open>catch\<close> of \<open>/create\<close>.\<close>

definition create_catch :: "js_error \<Rightarrow> response" where
  "create_catch error =
     (if message error = free_account_limit
      then Json 422 (delete_data (Transport 422 (Some [message error]) None))
      else FormatError500Json error)"

text \<open>
  The handler of \<open>POST /create\<close>, after authentication and the check of the name:
  \<open>getNumberCirclesByOwner(authUser.id)\<close>, then the quota, then
  \<open>addNewCircle(authUser.id, authUser.email, name)\<close>, then the answer.
\<close>

definition create_handler ::
  "'s circle_service \<Rightarrow> auth_user \<Rightarrow> string \<Rightarrow> 's \<Rightarrow> response \<times> 's" where
  "create_handler sCircle authUser name s =
     (case then_promise create_quota (getNumberCirclesByOwner sCircle (user_id authUser) s) of
        Inl error \<Rightarrow> (create_catch error, s)
      | Inr _ \<Rightarrow>
          (case addNewCircle sCircle (user_id authUser) (user_email authUser) name s of
             (Inl error, s') \<Rightarrow> (create_catch error, s')
           | (Inr circleId, s') \<Rightarrow>
               (Json 200 (Transport 200 None (Some (CircleId circleId))), s')))"

text \<open>The handler of \<open>GET /byUser\<close>.\<close>

definition byUser_handler :: "'s circle_service \<Rightarrow> auth_user \<Rightarrow> 's \<Rightarrow> response" where
  "byUser_handler sCircle authUser s =
     (case GetCircleByUser sCircle (user_id authUser) s of
        Inl error \<Rightarrow> FormatError500Json error
      | Inr result \<Rightarrow>
          (case result of
             None \<Rightarrow> FormatError404Json
           | Some circles \<Rightarrow> Json 200 (Transport 200 None (Some (Circles circles)))))"

section \<open>A circle service on the data store\<close>

text \<open>
  Modelled from the spec: \<open>getNumberCirclesByOwner\<close> of the missing \<open>CircleService\<close>. It
  computes the count of circles currently owned by the user.
\<close>

definition count_circles_by_owner :: "nat \<Rightarrow> data_store \<Rightarrow> int promise" where
  "count_circles_by_owner ownerId db =
     (case fault db of
        Some error \<Rightarrow> Inl error
      | None \<Rightarrow> Inr (int (length (filter (\<lambda>C. C_ownerId C = ownerId) (tb_circle db)))))"

text \<open>
  Modelled from the spec: \<open>addNewCircle\<close> of the missing \<open>CircleService\<close>. It creates the
  circle with the user as its owner, and the owner's membership row, whose \<open>joinedAt\<close>
  is null, and returns the id of the circle; the owner is a foreign key to the users.
\<close>

definition add_new_circle ::
  "nat \<Rightarrow> string \<Rightarrow> string \<Rightarrow> data_store \<Rightarrow> nat promise \<times> data_store" where
  "add_new_circle ownerId email name db =
     (case fault db of
        Some error \<Rightarrow> (Inl error, db)
      | None \<Rightarrow>
          (if ownerId \<in> set (map U_id (tb_user db))
           then
             (let n = next_circle_id db
              in (Inr n,
                  db\<lparr>tb_circle := tb_circle db @
                       [\<lparr>C_id = n, C_name = name, C_ownerId = ownerId\<rparr>],
                     tb_circle_member := tb_circle_member db @
                       [\<lparr>CM_userId = ownerId, CM_circleId = n, CM_isOwner = True,
                         CM_joinedAt = None\<rparr>],
                     next_circle_id := n + 1\<rparr>))
           else (Inl constraint_violation, db)))"

text \<open>
  Modelled from the spec: \<open>GetCircleByUser\<close> of the missing \<open>CircleService\<close>. A circle is
  visible to the user if a membership row exists for the user and the circle, whatever
  the owner flag; if the user belongs to none, the result is the not-found outcome
  (\<open>null\<close>) rather than an empty list.
\<close>

definition circles_by_user :: "nat \<Rightarrow> data_store \<Rightarrow> (circle_item list option) promise" where
  "circles_by_user userId db =
     (case fault db of
        Some error \<Rightarrow> Inl error
      | None \<Rightarrow>
          (let circles =
             [\<lparr>circle_id = C_id C, circle_name = C_name C, isOwner = CM_isOwner CM,
               joinedAt = CM_joinedAt CM\<rparr>.
                CM \<leftarrow> tb_circle_member db, CM_userId CM = userId,
                C \<leftarrow> tb_circle db, C_id C = CM_circleId CM]
           in if circles = [] then Inr None else Inr (Some circles)))"

definition CircleService :: "data_store circle_service" where
  "CircleService =
     \<lparr>getNumberCirclesByOwner = count_circles_by_owner,
      addNewCircle = add_new_circle,
      GetCircleByUser = circles_by_user\<rparr>"

section \<open>A small store\<close>

text \<open>
  Three users. User 1 owns circles 1 and 2; user 2 is a member of circle 1 only; user 3
  belongs to no circle. Circle 1 has two bills and two budgets, circle 2 one of each.
\<close>

definition demo_store :: data_store where
  "demo_store =
     \<lparr>tb_plugin_expenses_categories =
        [\<lparr>EC_id = 1, EC_categoryName = ''Food''\<rparr>, \<lparr>EC_id = 2, EC_categoryName = ''Rent''\<rparr>],
      tb_plugin_expenses =
        [\<lparr>PE_id = 1, PE_circleId = 1, PE_userId = 1, PE_billName = ''Lunch'',
          PE_billAmount = 1200, PE_billCategoryId = 1, PE_billDate = 20200501\<rparr>,
         \<lparr>PE_id = 2, PE_circleId = 1, PE_userId = 2, PE_billName = ''Flat'',
          PE_billAmount = 90000, PE_billCategoryId = 2, PE_billDate = 20200601\<rparr>,
         \<lparr>PE_id = 3, PE_circleId = 2, PE_userId = 1, PE_billName = ''Dinner'',
          PE_billAmount = 3000, PE_billCategoryId = 1, PE_billDate = 20200515\<rparr>],
      tb_plugin_expenses_budget =
        [\<lparr>PEB_id = 1, PEB_circleId = 1, PEB_userId = 1, PEB_budgetName = ''May'',
          PEB_budgetAmount = 50000, PEB_budgetStartDate = 20200501,
          PEB_budgetEndDate = 20200531\<rparr>,
         \<lparr>PEB_id = 2, PEB_circleId = 1, PEB_userId = 1, PEB_budgetName = ''June'',
          PEB_budgetAmount = 60000, PEB_budgetStartDate = 20200601,
          PEB_budgetEndDate = 20200630\<rparr>,
         \<lparr>PEB_id = 3, PEB_circleId = 2, PEB_userId = 1, PEB_budgetName = ''Trip'',
          PEB_budgetAmount = 70000, PEB_budgetStartDate = 20200701,
          PEB_budgetEndDate = 20200731\<rparr>],
      tb_circle_member =
        [\<lparr>CM_userId = 1, CM_circleId = 1, CM_isOwner = True, CM_joinedAt = None\<rparr>,
         \<lparr>CM_userId = 1, CM_circleId = 2, CM_isOwner = True, CM_joinedAt = None\<rparr>,
         \<lparr>CM_userId = 2, CM_circleId = 1, CM_isOwner = False, CM_joinedAt = Some 20200507\<rparr>],
      tb_circle =
        [\<lparr>C_id = 1, C_name = ''Team A'', C_ownerId = 1\<rparr>,
         \<lparr>C_id = 2, C_name = ''Team B'', C_ownerId = 1\<rparr>],
      tb_user =
        [\<lparr>U_id = 1, U_email = ''o@bivt''\<rparr>, \<lparr>U_id = 2, U_email = ''m@bivt''\<rparr>,
         \<lparr>U_id = 3, U_email = ''n@bivt''\<rparr>],
      next_expenses_id = 4,
      next_budget_id = 4,
      next_circle_id = 3,
      fault = None\<rparr>"

section \<open>What the methods resolve with\<close>

lemma getBillCategories_resolved:
  "fault db = None \<Longrightarrow>
     getBillCategories db = Inr (getBillCategories_then (Some (select_categories db)))"
  by (simp add: getBillCategories_def query_rows_def then_promise_def catch_promise_def)

lemma getBills_resolved:
  "fault db = None \<Longrightarrow> getBills userId circleId db = Inr (Some (select_bills userId circleId db))"
  by (simp add: getBills_def getBills_then_def query_rows_def then_promise_def catch_promise_def)

lemma getBudgets_resolved:
  "fault db = None \<Longrightarrow>
     getBudgets userId circleId db = Inr (Some (select_budgets userId circleId db))"
  by (simp add: getBudgets_def getBudgets_then_def query_rows_def then_promise_def
      catch_promise_def)

lemma getBills_rejected:
  "fault db = Some error \<Longrightarrow> getBills userId circleId db = Inl error"
  by (simp add: getBills_def query_rows_def then_promise_def catch_promise_def rethrow_def)

lemma getBudgets_rejected:
  "fault db = Some error \<Longrightarrow> getBudgets userId circleId db = Inl error"
  by (simp add: getBudgets_def query_rows_def then_promise_def catch_promise_def rethrow_def)

lemma category_columns_same:
  "\<lparr>EC_id = EC_id PE, EC_categoryName = EC_categoryName PE\<rparr> = (PE :: category_row)"
  by (cases PE) simp

lemma select_categories_table: "select_categories db = tb_plugin_expenses_categories db"
  by (simp add: select_categories_def category_columns_same)

lemma demo_store_sound: "fault demo_store = None"
  by (simp add: demo_store_def)

section \<open>The bill categories\<close>

text \<open>
  C10: \<open>getBillCategories\<close> takes no input besides the store. When the statement is not
  rejected, it resolves with the full list of categories, in table order, if the table
  holds at least one, and with \<open>null\<close>, not with an empty list, if the table is empty.
\<close>

theorem getBillCategories_list_or_null:
  assumes "fault db = None"
  shows "getBillCategories db =
           Inr (if tb_plugin_expenses_categories db = [] then None
                else Some (tb_plugin_expenses_categories db))"
  using assms by (simp add: getBillCategories_resolved select_categories_table
      getBillCategories_then_def)

theorem getBillCategories_list_or_null_witness:
  "fault demo_store = None \<and>
   getBillCategories demo_store =
     Inr (Some [\<lparr>EC_id = 1, EC_categoryName = ''Food''\<rparr>, \<lparr>EC_id = 2, EC_categoryName = ''Rent''\<rparr>]) \<and>
   fault (demo_store\<lparr>tb_plugin_expenses_categories := []\<rparr>) = None \<and>
   getBillCategories (demo_store\<lparr>tb_plugin_expenses_categories := []\<rparr>) = Inr None"
proof -
  have f1: "fault demo_store = None"
    by (simp add: demo_store_def)
  have f2: "fault (demo_store\<lparr>tb_plugin_expenses_categories := []\<rparr>) = None"
    by (simp add: demo_store_def)
  show ?thesis
    using f1 f2 getBillCategories_list_or_null [OF f1] getBillCategories_list_or_null [OF f2]
    by (simp add: demo_store_def)
qed

section \<open>Arrays and \<open>null\<close>\<close>

text \<open>
  C9: whenever the query resolves with an array, the empty array included, the callbacks
  of \<open>getBills\<close> and \<open>getBudgets\<close> return that list and not \<open>null\<close>, since the guard
  \<open>length >= 0\<close> holds of every array; the callback of \<open>getBillCategories\<close> maps the
  empty array to \<open>null\<close>. So \<open>getBills\<close> and \<open>getBudgets\<close> never resolve with \<open>null\<close>.
\<close>

theorem arrays_never_null:
  "getBills_then (Some bills) = Some bills \<and>
   getBudgets_then (Some budgets) = Some budgets \<and>
   getBills_then (Some []) = Some [] \<and>
   getBudgets_then (Some []) = Some [] \<and>
   getBillCategories_then (Some []) = None \<and>
   getBills userId circleId db \<noteq> Inr None \<and>
   getBudgets userId circleId db \<noteq> Inr None"
proof -
  have "getBills userId circleId db \<noteq> Inr None"
    by (cases "fault db") (simp_all add: getBills_resolved getBills_rejected)
  moreover have "getBudgets userId circleId db \<noteq> Inr None"
    by (cases "fault db") (simp_all add: getBudgets_resolved getBudgets_rejected)
  ultimately show ?thesis
    by (simp add: getBills_then_def getBudgets_then_def getBillCategories_then_def)
qed

section \<open>What the writing methods resolve with\<close>

lemma addBill_resolved:
  "fault db = None \<Longrightarrow> bill_references circleId userId categoryId db \<Longrightarrow>
     addBill circleId userId name amount categoryId date db =
       (Inr (int (next_expenses_id db)),
        db\<lparr>tb_plugin_expenses := tb_plugin_expenses db @
              [\<lparr>PE_id = next_expenses_id db, PE_circleId = circleId, PE_userId = userId,
                PE_billName = name, PE_billAmount = amount, PE_billCategoryId = categoryId,
                PE_billDate = date\<rparr>],
           next_expenses_id := next_expenses_id db + 1\<rparr>)"
  by (simp add: addBill_def query_write_def insert_bill_def then_promise_def catch_promise_def
      addBill_then_def parseInt_def Let_def)

lemma addBill_violation:
  "fault db = None \<Longrightarrow> \<not> bill_references circleId userId categoryId db \<Longrightarrow>
     addBill circleId userId name amount categoryId date db = (Inl constraint_violation, db)"
  by (simp add: addBill_def query_write_def insert_bill_def then_promise_def catch_promise_def
      rethrow_def)

lemma addBill_fault:
  "fault db = Some error \<Longrightarrow>
     addBill circleId userId name amount categoryId date db = (Inl error, db)"
  by (simp add: addBill_def query_write_def then_promise_def catch_promise_def rethrow_def)

lemma addBill_resolves_only:
  assumes "addBill circleId userId name amount categoryId date db = (Inr newId, db')"
  shows "fault db = None \<and> bill_references circleId userId categoryId db"
proof (cases "fault db")
  case None
  then show ?thesis
    using assms addBill_violation [OF None, of circleId userId categoryId name amount date]
    by auto
next
  case (Some error)
  then show ?thesis
    using assms by (simp add: addBill_fault)
qed

lemma addBudget_resolved:
  "fault db = None \<Longrightarrow> budget_references circleId userId db \<Longrightarrow>
     addBudget circleId userId name amount startDate endDate db =
       (Inr (int (next_budget_id db)),
        db\<lparr>tb_plugin_expenses_budget := tb_plugin_expenses_budget db @
              [\<lparr>PEB_id = next_budget_id db, PEB_circleId = circleId, PEB_userId = userId,
                PEB_budgetName = name, PEB_budgetAmount = amount,
                PEB_budgetStartDate = startDate, PEB_budgetEndDate = endDate\<rparr>],
           next_budget_id := next_budget_id db + 1\<rparr>)"
  by (simp add: addBudget_def query_write_def insert_budget_def then_promise_def
      catch_promise_def addBudget_then_def parseInt_def Let_def)

lemma addBudget_violation:
  "fault db = None \<Longrightarrow> \<not> budget_references circleId userId db \<Longrightarrow>
     addBudget circleId userId name amount startDate endDate db =
       (Inl constraint_violation, db)"
  by (simp add: addBudget_def query_write_def insert_budget_def then_promise_def
      catch_promise_def rethrow_def)

lemma removeBill_resolved:
  "fault db = None \<Longrightarrow>
     removeBill userId billId circleId db =
       (Inr (int (length (filter (\<lambda>PE. PE_id PE = billId \<and> PE_circleId PE = circleId)
                           (tb_plugin_expenses db)))),
        db\<lparr>tb_plugin_expenses :=
             filter (\<lambda>PE. \<not> (PE_id PE = billId \<and> PE_circleId PE = circleId))
               (tb_plugin_expenses db)\<rparr>)"
  by (simp add: removeBill_def query_write_def delete_bill_def then_promise_def
      catch_promise_def removeBill_then_def parseInt_def Let_def)

lemma removeBudget_resolved:
  "fault db = None \<Longrightarrow>
     removeBudget userId budgetId circleId db =
       (Inr (int (length (filter (\<lambda>PEB. PEB_id PEB = budgetId \<and> PEB_circleId PEB = circleId)
                           (tb_plugin_expenses_budget db)))),
        db\<lparr>tb_plugin_expenses_budget :=
             filter (\<lambda>PEB. \<not> (PEB_id PEB = budgetId \<and> PEB_circleId PEB = circleId))
               (tb_plugin_expenses_budget db)\<rparr>)"
  by (simp add: removeBudget_def query_write_def delete_budget_def then_promise_def
      catch_promise_def removeBudget_then_def parseInt_def Let_def)

section \<open>The joins and the order\<close>

lemma set_bills_joined:
  "set (bills_joined userId circleId db) =
     {(PE, CM, EC). PE \<in> set (tb_plugin_expenses db) \<and> CM \<in> set (tb_circle_member db) \<and>
        EC \<in> set (tb_plugin_expenses_categories db) \<and>
        PE_circleId PE = CM_circleId CM \<and> PE_billCategoryId PE = EC_id EC \<and>
        CM_userId CM = userId \<and> CM_circleId CM = circleId}"
  by (auto simp add: bills_joined_def split: if_splits)

lemma set_budgets_joined:
  "set (budgets_joined userId circleId db) =
     {(PEB, CM). PEB \<in> set (tb_plugin_expenses_budget db) \<and> CM \<in> set (tb_circle_member db) \<and>
        PEB_circleId PEB = CM_circleId CM \<and>
        CM_userId CM = userId \<and> CM_circleId CM = circleId}"
  by (auto simp add: budgets_joined_def split: if_splits)

lemma set_order_by_desc: "set (order_by_desc key rows) = set rows"
  by (simp add: order_by_desc_def)

lemma length_order_by_desc: "length (order_by_desc key rows) = length rows"
  by (simp add: order_by_desc_def)

lemma order_by_desc_sorted: "sorted_wrt (\<lambda>x y. key y \<le> key x) (order_by_desc key rows)"
proof -
  have "sorted (map (\<lambda>r. - key r) (sort_key (\<lambda>r. - key r) rows))"
    by (rule sorted_sort_key)
  then show ?thesis
    by (simp add: sorted_wrt_map order_by_desc_def)
qed

lemma select_bills_sorted:
  "sorted_wrt (\<lambda>a b. billDate a \<ge> billDate b) (select_bills userId circleId db)"
  using order_by_desc_sorted [of "\<lambda>j. PE_billDate (fst j)" "bills_joined userId circleId db"]
  by (simp add: select_bills_def sorted_wrt_map bill_columns_def case_prod_unfold)

lemma select_budgets_sorted:
  "sorted_wrt (\<lambda>a b. budgetStartDate a \<ge> budgetStartDate b) (select_budgets userId circleId db)"
  using order_by_desc_sorted [of "\<lambda>j. PEB_budgetStartDate (fst j)"
      "budgets_joined userId circleId db"]
  by (simp add: select_budgets_def sorted_wrt_map budget_columns_def case_prod_unfold)

lemma set_select_bills:
  "set (select_bills userId circleId db) = bill_columns ` set (bills_joined userId circleId db)"
  by (simp add: select_bills_def set_order_by_desc)

lemma set_select_budgets:
  "set (select_budgets userId circleId db) =
     budget_columns ` set (budgets_joined userId circleId db)"
  by (simp add: select_budgets_def set_order_by_desc)

lemma not_member_no_bills:
  assumes "\<not> (\<exists>CM \<in> set (tb_circle_member db). CM_userId CM = userId \<and> CM_circleId CM = circleId)"
  shows "select_bills userId circleId db = []"
proof -
  have "set (bills_joined userId circleId db) = {}"
    using assms by (auto simp add: set_bills_joined)
  then show ?thesis
    by (simp add: select_bills_def order_by_desc_def)
qed

lemma not_member_no_budgets:
  assumes "\<not> (\<exists>CM \<in> set (tb_circle_member db). CM_userId CM = userId \<and> CM_circleId CM = circleId)"
  shows "select_budgets userId circleId db = []"
proof -
  have "set (budgets_joined userId circleId db) = {}"
    using assms by (auto simp add: set_budgets_joined)
  then show ?thesis
    by (simp add: select_budgets_def order_by_desc_def)
qed

lemma select_bills_of_circle:
  assumes "item \<in> set (select_bills userId circleId db)"
  shows "\<exists>PE \<in> set (tb_plugin_expenses db).
           PE_circleId PE = circleId \<and> bill_id item = PE_id PE \<and> billName item = PE_billName PE \<and>
           billAmount item = PE_billAmount PE \<and> billCategoryId item = PE_billCategoryId PE \<and>
           billDate item = PE_billDate PE"
  using assms by (auto simp add: set_select_bills set_bills_joined bill_columns_def)

lemma select_budgets_of_circle:
  assumes "item \<in> set (select_budgets userId circleId db)"
  shows "\<exists>PEB \<in> set (tb_plugin_expenses_budget db).
           PEB_circleId PEB = circleId \<and> budget_id item = PEB_id PEB \<and>
           budgetName item = PEB_budgetName PEB \<and> budgetAmount item = PEB_budgetAmount PEB \<and>
           budgetStartDate item = PEB_budgetStartDate PEB \<and>
           budgetEndDate item = PEB_budgetEndDate PEB"
  using assms by (auto simp add: set_select_budgets set_budgets_joined budget_columns_def)

lemma byUser_handler_null:
  "GetCircleByUser sCircle (user_id authUser) s = Inr None \<Longrightarrow>
     byUser_handler sCircle authUser s = FormatError404Json"
  by (simp add: byUser_handler_def)

lemma byUser_handler_list:
  "GetCircleByUser sCircle (user_id authUser) s = Inr (Some circles) \<Longrightarrow>
     byUser_handler sCircle authUser s = Json 200 (Transport 200 None (Some (Circles circles)))"
  by (simp add: byUser_handler_def)

lemma circles_by_user_none:
  assumes "fault db = None"
    and "\<not> (\<exists>CM \<in> set (tb_circle_member db). CM_userId CM = userId)"
  shows "circles_by_user userId db = Inr None"
proof -
  have "filter (\<lambda>CM. CM_userId CM = userId) (tb_circle_member db) = []"
    using assms(2) by (simp add: filter_empty_conv)
  then have "[\<lparr>circle_id = C_id C, circle_name = C_name C, isOwner = CM_isOwner CM,
               joinedAt = CM_joinedAt CM\<rparr>.
                CM \<leftarrow> tb_circle_member db, CM_userId CM = userId,
                C \<leftarrow> tb_circle db, C_id C = CM_circleId CM] = []"
    using assms(2) by (auto simp add: concat_eq_Nil_conv)
  then show ?thesis
    using assms(1) by (simp add: circles_by_user_def)
qed

lemma circles_by_user_never_empty: "circles_by_user userId db \<noteq> Inr (Some [])"
  by (cases "fault db") (simp_all add: circles_by_user_def Let_def)

section \<open>Reading bills and budgets\<close>

text \<open>
  C1: for every user and circle with no membership row, \<open>getBills\<close> and \<open>getBudgets\<close>
  resolve with the empty list when the statement is not rejected. For every user and
  circle, each object they resolve with holds the columns of a row of that very circle,
  never of another one. The membership table is joined inside the one statement that
  reads the rows (see \<open>bills_joined\<close> and \<open>budgets_joined\<close>); there is no check before it.
\<close>

theorem reads_gated_by_membership:
  assumes "fault db = None"
  shows "(\<not> (\<exists>CM \<in> set (tb_circle_member db).
               CM_userId CM = userId \<and> CM_circleId CM = circleId) \<longrightarrow>
            getBills userId circleId db = Inr (Some []) \<and>
            getBudgets userId circleId db = Inr (Some [])) \<and>
         (\<exists>bills. getBills userId circleId db = Inr (Some bills) \<and>
            (\<forall>item \<in> set bills. \<exists>PE \<in> set (tb_plugin_expenses db).
               PE_circleId PE = circleId \<and> bill_id item = PE_id PE \<and>
               billName item = PE_billName PE \<and> billAmount item = PE_billAmount PE \<and>
               billCategoryId item = PE_billCategoryId PE \<and> billDate item = PE_billDate PE)) \<and>
         (\<exists>budgets. getBudgets userId circleId db = Inr (Some budgets) \<and>
            (\<forall>item \<in> set budgets. \<exists>PEB \<in> set (tb_plugin_expenses_budget db).
               PEB_circleId PEB = circleId \<and> budget_id item = PEB_id PEB \<and>
               budgetName item = PEB_budgetName PEB \<and> budgetAmount item = PEB_budgetAmount PEB \<and>
               budgetStartDate item = PEB_budgetStartDate PEB \<and>
               budgetEndDate item = PEB_budgetEndDate PEB))"
proof (intro conjI impI)
  assume stranger: "\<not> (\<exists>CM \<in> set (tb_circle_member db).
    CM_userId CM = userId \<and> CM_circleId CM = circleId)"
  show "getBills userId circleId db = Inr (Some [])"
    using assms not_member_no_bills [OF stranger] by (simp add: getBills_resolved)
  show "getBudgets userId circleId db = Inr (Some [])"
    using assms not_member_no_budgets [OF stranger] by (simp add: getBudgets_resolved)
next
  show "\<exists>bills. getBills userId circleId db = Inr (Some bills) \<and>
            (\<forall>item \<in> set bills. \<exists>PE \<in> set (tb_plugin_expenses db).
               PE_circleId PE = circleId \<and> bill_id item = PE_id PE \<and>
               billName item = PE_billName PE \<and> billAmount item = PE_billAmount PE \<and>
               billCategoryId item = PE_billCategoryId PE \<and> billDate item = PE_billDate PE)"
    using assms select_bills_of_circle [of _ userId circleId db]
    by (simp add: getBills_resolved)
next
  show "\<exists>budgets. getBudgets userId circleId db = Inr (Some budgets) \<and>
            (\<forall>item \<in> set budgets. \<exists>PEB \<in> set (tb_plugin_expenses_budget db).
               PEB_circleId PEB = circleId \<and> budget_id item = PEB_id PEB \<and>
               budgetName item = PEB_budgetName PEB \<and> budgetAmount item = PEB_budgetAmount PEB \<and>
               budgetStartDate item = PEB_budgetStartDate PEB \<and>
               budgetEndDate item = PEB_budgetEndDate PEB)"
    using assms select_budgets_of_circle [of _ userId circleId db]
    by (simp add: getBudgets_resolved)
qed

theorem reads_gated_by_membership_witness:
  "fault demo_store = None \<and>
   \<not> (\<exists>CM \<in> set (tb_circle_member demo_store). CM_userId CM = 2 \<and> CM_circleId CM = 2) \<and>
   getBills 2 2 demo_store = Inr (Some []) \<and>
   getBudgets 2 2 demo_store = Inr (Some [])"
proof -
  have stranger: "\<not> (\<exists>CM \<in> set (tb_circle_member demo_store).
      CM_userId CM = 2 \<and> CM_circleId CM = 2)"
    by (simp add: demo_store_def)
  show ?thesis
    using demo_store_sound stranger
      reads_gated_by_membership [OF demo_store_sound, of 2 2]
    by blast
qed

text \<open>
  C7: when the statement is not rejected, \<open>getBills\<close> resolves with the joined rows of
  the user and the circle ordered by \<open>billDate\<close>, newest first, and \<open>getBudgets\<close> with
  the joined rows ordered by \<open>budgetStartDate\<close>, newest first; ordering loses no row.
\<close>

theorem lists_newest_first:
  assumes "fault db = None"
  shows "\<exists>bills budgets.
           getBills userId circleId db = Inr (Some bills) \<and>
           sorted_wrt (\<lambda>a b. billDate a \<ge> billDate b) bills \<and>
           set bills = bill_columns ` set (bills_joined userId circleId db) \<and>
           length bills = length (bills_joined userId circleId db) \<and>
           getBudgets userId circleId db = Inr (Some budgets) \<and>
           sorted_wrt (\<lambda>a b. budgetStartDate a \<ge> budgetStartDate b) budgets \<and>
           set budgets = budget_columns ` set (budgets_joined userId circleId db) \<and>
           length budgets = length (budgets_joined userId circleId db)"
  using assms select_bills_sorted [of userId circleId db]
    select_budgets_sorted [of userId circleId db]
  by (simp add: getBills_resolved getBudgets_resolved set_select_bills set_select_budgets)
    (simp add: select_bills_def select_budgets_def length_order_by_desc)

theorem lists_newest_first_witness:
  "fault demo_store = None \<and>
   getBills 1 1 demo_store =
     Inr (Some [\<lparr>bill_id = 2, billName = ''Flat'', billAmount = 90000, billCategoryId = 2,
                  categoryNAme = ''Rent'', billDate = 20200601\<rparr>,
                \<lparr>bill_id = 1, billName = ''Lunch'', billAmount = 1200, billCategoryId = 1,
                  categoryNAme = ''Food'', billDate = 20200501\<rparr>]) \<and>
   getBudgets 1 1 demo_store =
     Inr (Some [\<lparr>budget_id = 2, budgetName = ''June'', budgetAmount = 60000,
                  budgetStartDate = 20200601, budgetEndDate = 20200630\<rparr>,
                \<lparr>budget_id = 1, budgetName = ''May'', budgetAmount = 50000,
                  budgetStartDate = 20200501, budgetEndDate = 20200531\<rparr>])"
  using lists_newest_first [OF demo_store_sound, of 1 1]
  by (simp add: getBills_resolved getBudgets_resolved demo_store_sound)
    (simp add: select_bills_def select_budgets_def bills_joined_def budgets_joined_def
      order_by_desc_def bill_columns_def budget_columns_def demo_store_def)

section \<open>Adding a bill, then reading\<close>

text \<open>
  C6: for every user who is a member of the circle, whenever \<open>addBill\<close> for the circle
  and the user resolves, \<open>getBills\<close> for the same user and circle on the store after
  it resolves with a list that includes the new bill, under the identifier that
  \<open>addBill\<close> returned and with the values given, ordered by \<open>billDate\<close>, newest first.
  The statement of \<open>getBills\<close> joins the category table, and the store accepts a bill
  only if its category exists.
\<close>

theorem addBill_then_getBills:
  assumes "\<exists>CM \<in> set (tb_circle_member db). CM_userId CM = userId \<and> CM_circleId CM = circleId"
    and "addBill circleId userId name amount categoryId date db = (Inr newId, db')"
  shows "\<exists>bills.
           getBills userId circleId db' = Inr (Some bills) \<and>
           (\<exists>item \<in> set bills.
              int (bill_id item) = newId \<and> billName item = name \<and>
              billAmount item = amount \<and> billCategoryId item = categoryId \<and>
              billDate item = date) \<and>
           sorted_wrt (\<lambda>a b. billDate a \<ge> billDate b) bills"
proof -
  define row where "row = \<lparr>PE_id = next_expenses_id db, PE_circleId = circleId,
    PE_userId = userId, PE_billName = name, PE_billAmount = amount,
    PE_billCategoryId = categoryId, PE_billDate = date\<rparr>"
  have sound: "fault db = None" and refs: "bill_references circleId userId categoryId db"
    using addBill_resolves_only [OF assms(2)] by simp_all
  have added: "newId = int (next_expenses_id db)"
    "db' = db\<lparr>tb_plugin_expenses := tb_plugin_expenses db @ [row],
               next_expenses_id := next_expenses_id db + 1\<rparr>"
    using assms(2) addBill_resolved [OF sound refs, of name amount date]
    by (simp_all add: row_def)
  obtain CM where CM: "CM \<in> set (tb_circle_member db)" "CM_userId CM = userId"
    "CM_circleId CM = circleId"
    using assms(1) by blast
  obtain EC where EC: "EC \<in> set (tb_plugin_expenses_categories db)" "EC_id EC = categoryId"
    using refs by (auto simp add: bill_references_def)
  have sound': "fault db' = None"
    using sound by (simp add: added(2))
  have "(row, CM, EC) \<in> set (bills_joined userId circleId db')"
    using CM EC by (simp add: set_bills_joined added(2) row_def)
  then have "bill_columns (row, CM, EC) \<in> set (select_bills userId circleId db')"
    by (simp add: set_select_bills)
  then have listed: "\<exists>item \<in> set (select_bills userId circleId db').
      int (bill_id item) = newId \<and> billName item = name \<and>
      billAmount item = amount \<and> billCategoryId item = categoryId \<and> billDate item = date"
    by (rule rev_bexI) (simp add: bill_columns_def row_def added(1))
  show ?thesis
    using listed select_bills_sorted [of userId circleId db']
    by (simp add: getBills_resolved [OF sound'])
qed

theorem addBill_then_getBills_witness:
  "(\<exists>CM \<in> set (tb_circle_member demo_store). CM_userId CM = 1 \<and> CM_circleId CM = 1) \<and>
   addBill 1 1 ''Taxi'' 700 2 20200515 demo_store =
     (Inr 4, snd (addBill 1 1 ''Taxi'' 700 2 20200515 demo_store)) \<and>
   (\<exists>bills.
      getBills 1 1 (snd (addBill 1 1 ''Taxi'' 700 2 20200515 demo_store)) = Inr (Some bills) \<and>
      (\<exists>item \<in> set bills. int (bill_id item) = 4 \<and> billName item = ''Taxi'' \<and>
         billAmount item = 700 \<and> billCategoryId item = 2 \<and> billDate item = 20200515) \<and>
      sorted_wrt (\<lambda>a b. billDate a \<ge> billDate b) bills) \<and>
   map bill_id (select_bills 1 1 (snd (addBill 1 1 ''Taxi'' 700 2 20200515 demo_store))) =
     [2, 4, 1]"
proof -
  have member: "\<exists>CM \<in> set (tb_circle_member demo_store). CM_userId CM = 1 \<and> CM_circleId CM = 1"
    by (simp add: demo_store_def)
  have refs: "bill_references 1 1 2 demo_store"
    by (simp add: bill_references_def demo_store_def)
  have next_id: "next_expenses_id demo_store = 4"
    by (simp add: demo_store_def)
  have resolved: "addBill 1 1 ''Taxi'' 700 2 20200515 demo_store =
      (Inr 4, snd (addBill 1 1 ''Taxi'' 700 2 20200515 demo_store))"
    using addBill_resolved [OF demo_store_sound refs, of "''Taxi''" 700 20200515] next_id
    by simp
  have ids: "map bill_id (select_bills 1 1 (snd (addBill 1 1 ''Taxi'' 700 2 20200515 demo_store)))
      = [2, 4, 1]"
    using addBill_resolved [OF demo_store_sound refs, of "''Taxi''" 700 20200515]
    by (simp add: select_bills_def bills_joined_def order_by_desc_def bill_columns_def
        demo_store_def)
  show ?thesis
    using member resolved ids addBill_then_getBills [OF member resolved]
    by blast
qed

section \<open>Adding\<close>

text \<open>
  C8: \<open>addBill\<close> and \<open>addBudget\<close> validate nothing themselves. For every input that the
  store accepts, the row is inserted with the values as given and the method resolves
  with the identifier of the new row; an input that the store refuses on a foreign key
  is rejected with the error of the store and no table changes. The callbacks return
  the \<open>insertId\<close> of a result descriptor, and 0 when the result descriptor is \<open>null\<close>.
\<close>

theorem insert_returns_new_id:
  assumes "fault db = None"
  shows "addBill circleId userId name amount categoryId date db =
           (if bill_references circleId userId categoryId db
            then (Inr (int (next_expenses_id db)),
                  db\<lparr>tb_plugin_expenses := tb_plugin_expenses db @
                        [\<lparr>PE_id = next_expenses_id db, PE_circleId = circleId,
                          PE_userId = userId, PE_billName = name, PE_billAmount = amount,
                          PE_billCategoryId = categoryId, PE_billDate = date\<rparr>],
                     next_expenses_id := next_expenses_id db + 1\<rparr>)
            else (Inl constraint_violation, db)) \<and>
         addBudget circleId userId label allowance startDate endDate db =
           (if budget_references circleId userId db
            then (Inr (int (next_budget_id db)),
                  db\<lparr>tb_plugin_expenses_budget := tb_plugin_expenses_budget db @
                        [\<lparr>PEB_id = next_budget_id db, PEB_circleId = circleId,
                          PEB_userId = userId, PEB_budgetName = label,
                          PEB_budgetAmount = allowance, PEB_budgetStartDate = startDate,
                          PEB_budgetEndDate = endDate\<rparr>],
                     next_budget_id := next_budget_id db + 1\<rparr>)
            else (Inl constraint_violation, db)) \<and>
         addBill_then (Some result) = int (insertId result) \<and>
         addBudget_then (Some result) = int (insertId result) \<and>
         addBill_then None = 0 \<and>
         addBudget_then None = 0"
  using assms
  by (simp add: addBill_resolved addBill_violation addBudget_resolved addBudget_violation
      addBill_then_def addBudget_then_def parseInt_def)

theorem insert_returns_new_id_witness:
  "fault demo_store = None \<and>
   fst (addBill 1 2 ''Taxi'' (-700) 2 0 demo_store) = Inr 4 \<and>
   map PE_id (tb_plugin_expenses (snd (addBill 1 2 ''Taxi'' (-700) 2 0 demo_store)))
     = [1, 2, 3, 4] \<and>
   fst (addBudget 1 2 ''July'' 0 9 3 demo_store) = Inr 4 \<and>
   map PEB_id (tb_plugin_expenses_budget (snd (addBudget 1 2 ''July'' 0 9 3 demo_store)))
     = [1, 2, 3, 4] \<and>
   addBill 1 2 ''Taxi'' (-700) 9 0 demo_store = (Inl constraint_violation, demo_store) \<and>
   addBudget 7 2 ''July'' 0 9 3 demo_store = (Inl constraint_violation, demo_store)"
proof -
  have accepted: "bill_references 1 2 2 demo_store" "budget_references 1 2 demo_store"
    by (simp_all add: bill_references_def budget_references_def demo_store_def)
  have refused: "\<not> bill_references 1 2 9 demo_store" "\<not> budget_references 7 2 demo_store"
    by (simp_all add: bill_references_def budget_references_def demo_store_def)
  have tables: "map PE_id (tb_plugin_expenses demo_store) = [1, 2, 3]"
    "map PEB_id (tb_plugin_expenses_budget demo_store) = [1, 2, 3]"
    "next_expenses_id demo_store = 4" "next_budget_id demo_store = 4"
    by (simp_all add: demo_store_def)
  show ?thesis
    using accepted refused tables demo_store_sound
      insert_returns_new_id [OF demo_store_sound, where circleId = 1 and userId = 2
        and name = "''Taxi''" and amount = "-700" and categoryId = 2 and date = 0
        and label = "''July''" and allowance = 0 and startDate = 9 and endDate = 3]
      insert_returns_new_id [OF demo_store_sound, where circleId = 7 and userId = 2
        and name = "''Taxi''" and amount = "-700" and categoryId = 9 and date = 0
        and label = "''July''" and allowance = 0 and startDate = 9 and endDate = 3]
      insert_returns_new_id [OF demo_store_sound, where circleId = 1 and userId = 2
        and name = "''Taxi''" and amount = "-700" and categoryId = 9 and date = 0
        and label = "''July''" and allowance = 0 and startDate = 9 and endDate = 3]
    by simp
qed

section \<open>Removing\<close>

text \<open>
  C3: \<open>removeBill\<close> deletes, in its one statement, exactly the rows that match both the
  bill id and the circle id, and resolves with their number; rows of other circles stay.
  When no row with that bill id is in that circle, even if the bill id exists in another
  circle, nothing is deleted and the count is 0. The same holds of \<open>removeBudget\<close>.
\<close>

theorem remove_scoped_by_circle:
  assumes "fault db = None"
  shows "(\<exists>n db'. removeBill userId billId circleId db = (Inr (int n), db') \<and>
            n = length (filter (\<lambda>PE. PE_id PE = billId \<and> PE_circleId PE = circleId)
                          (tb_plugin_expenses db)) \<and>
            db' = db\<lparr>tb_plugin_expenses :=
                      filter (\<lambda>PE. \<not> (PE_id PE = billId \<and> PE_circleId PE = circleId))
                        (tb_plugin_expenses db)\<rparr> \<and>
            (\<forall>PE \<in> set (tb_plugin_expenses db).
               PE_circleId PE \<noteq> circleId \<longrightarrow> PE \<in> set (tb_plugin_expenses db')) \<and>
            (\<not> (\<exists>PE \<in> set (tb_plugin_expenses db).
                  PE_id PE = billId \<and> PE_circleId PE = circleId) \<longrightarrow> n = 0 \<and> db' = db)) \<and>
         (\<exists>n db'. removeBudget userId budgetId circleId db = (Inr (int n), db') \<and>
            n = length (filter (\<lambda>PEB. PEB_id PEB = budgetId \<and> PEB_circleId PEB = circleId)
                          (tb_plugin_expenses_budget db)) \<and>
            db' = db\<lparr>tb_plugin_expenses_budget :=
                      filter (\<lambda>PEB. \<not> (PEB_id PEB = budgetId \<and> PEB_circleId PEB = circleId))
                        (tb_plugin_expenses_budget db)\<rparr> \<and>
            (\<forall>PEB \<in> set (tb_plugin_expenses_budget db).
               PEB_circleId PEB \<noteq> circleId \<longrightarrow> PEB \<in> set (tb_plugin_expenses_budget db')) \<and>
            (\<not> (\<exists>PEB \<in> set (tb_plugin_expenses_budget db).
                  PEB_id PEB = budgetId \<and> PEB_circleId PEB = circleId) \<longrightarrow> n = 0 \<and> db' = db))"
proof -
  have bill: "\<not> (\<exists>PE \<in> set (tb_plugin_expenses db).
                PE_id PE = billId \<and> PE_circleId PE = circleId) \<Longrightarrow>
     filter (\<lambda>PE. PE_id PE = billId \<and> PE_circleId PE = circleId) (tb_plugin_expenses db) = [] \<and>
     filter (\<lambda>PE. \<not> (PE_id PE = billId \<and> PE_circleId PE = circleId)) (tb_plugin_expenses db)
       = tb_plugin_expenses db"
    by simp
  have budget: "\<not> (\<exists>PEB \<in> set (tb_plugin_expenses_budget db).
                PEB_id PEB = budgetId \<and> PEB_circleId PEB = circleId) \<Longrightarrow>
     filter (\<lambda>PEB. PEB_id PEB = budgetId \<and> PEB_circleId PEB = circleId)
       (tb_plugin_expenses_budget db) = [] \<and>
     filter (\<lambda>PEB. \<not> (PEB_id PEB = budgetId \<and> PEB_circleId PEB = circleId))
       (tb_plugin_expenses_budget db) = tb_plugin_expenses_budget db"
    by simp
  show ?thesis
    using assms bill budget
    by (simp add: removeBill_resolved removeBudget_resolved)
qed

theorem remove_scoped_by_circle_witness:
  "fault demo_store = None \<and>
   \<not> (\<exists>PE \<in> set (tb_plugin_expenses demo_store). PE_id PE = 3 \<and> PE_circleId PE = 1) \<and>
   removeBill 1 3 1 demo_store = (Inr 0, demo_store) \<and>
   \<not> (\<exists>PEB \<in> set (tb_plugin_expenses_budget demo_store).
        PEB_id PEB = 3 \<and> PEB_circleId PEB = 1) \<and>
   removeBudget 1 3 1 demo_store = (Inr 0, demo_store)"
proof -
  have bill: "\<not> (\<exists>PE \<in> set (tb_plugin_expenses demo_store).
      PE_id PE = 3 \<and> PE_circleId PE = 1)"
    by (simp add: demo_store_def)
  have budget: "\<not> (\<exists>PEB \<in> set (tb_plugin_expenses_budget demo_store).
      PEB_id PEB = 3 \<and> PEB_circleId PEB = 1)"
    by (simp add: demo_store_def)
  show ?thesis
    using demo_store_sound bill budget
      remove_scoped_by_circle [OF demo_store_sound, of 1 3 1 3]
    by auto
qed

text \<open>
  C4: \<open>removeBill\<close> and \<open>removeBudget\<close> do not use their \<open>userId\<close>: two users get the
  same deletion and the same count. The statement does not read the membership table
  either, so the count and the rows left are the same whatever the memberships are.
\<close>

theorem remove_ignores_user:
  "removeBill userId1 billId circleId db = removeBill userId2 billId circleId db \<and>
   removeBudget userId1 budgetId circleId db = removeBudget userId2 budgetId circleId db \<and>
   fst (removeBill userId1 billId circleId (db\<lparr>tb_circle_member := members\<rparr>)) =
     fst (removeBill userId1 billId circleId db) \<and>
   tb_plugin_expenses (snd (removeBill userId1 billId circleId (db\<lparr>tb_circle_member := members\<rparr>))) =
     tb_plugin_expenses (snd (removeBill userId1 billId circleId db)) \<and>
   fst (removeBudget userId1 budgetId circleId (db\<lparr>tb_circle_member := members\<rparr>)) =
     fst (removeBudget userId1 budgetId circleId db) \<and>
   tb_plugin_expenses_budget
       (snd (removeBudget userId1 budgetId circleId (db\<lparr>tb_circle_member := members\<rparr>))) =
     tb_plugin_expenses_budget (snd (removeBudget userId1 budgetId circleId db))"
  by (cases "fault db")
    (simp_all add: removeBill_def removeBudget_def query_write_def delete_bill_def
      delete_budget_def Let_def)

theorem remove_ignores_user_witness:
  "removeBill 3 1 1 demo_store = removeBill 1 1 1 demo_store \<and>
   fst (removeBill 3 1 1 demo_store) = Inr 1 \<and>
   map PE_id (tb_plugin_expenses (snd (removeBill 3 1 1 demo_store))) = [2, 3]"
  using remove_ignores_user [of 3 1 1 demo_store 1]
  by (simp add: removeBill_resolved demo_store_sound) (simp add: demo_store_def)

section \<open>Creating a circle\<close>

text \<open>
  C2: whatever the circle service is, when it counts \<open>n\<close> circles owned by the user,
  the handler of \<open>/create\<close> goes on to \<open>addNewCircle\<close> if and only if \<open>n < 2\<close>: with
  \<open>n < 2\<close> (so with 0 or 1) the answer is the one that follows \<open>addNewCircle\<close>, and
  otherwise (so with exactly 2) \<open>addNewCircle\<close> is not called, the state is unchanged and
  the answer is the status 422 with the reason that the free account limit is reached.
\<close>

theorem create_allowed_iff_below_quota:
  assumes "getNumberCirclesByOwner sCircle (user_id authUser) s = Inr n"
  shows "(n < 2 \<longrightarrow>
            create_handler sCircle authUser name s =
              (case addNewCircle sCircle (user_id authUser) (user_email authUser) name s of
                 (Inl error, s') \<Rightarrow> (create_catch error, s')
               | (Inr circleId, s') \<Rightarrow>
                   (Json 200 \<lparr>status_id = 200, status_errors = None,
                              data = Data (CircleId circleId)\<rparr>, s'))) \<and>
         (\<not> n < 2 \<longrightarrow>
            create_handler sCircle authUser name s =
              (Json 422 \<lparr>status_id = 422, status_errors = Some [free_account_limit],
                         data = Deleted\<rparr>, s))"
  using assms
  by (auto simp add: create_handler_def then_promise_def create_quota_def create_catch_def
      Transport_def delete_data_def split: prod.splits sum.splits)

theorem create_allowed_iff_below_quota_witness:
  "getNumberCirclesByOwner CircleService (user_id \<lparr>user_id = 1, user_email = ''o@bivt''\<rparr>)
     demo_store = Inr 2 \<and>
   create_handler CircleService \<lparr>user_id = 1, user_email = ''o@bivt''\<rparr> ''Team C'' demo_store =
     (Json 422 \<lparr>status_id = 422, status_errors = Some [free_account_limit], data = Deleted\<rparr>,
      demo_store) \<and>
   getNumberCirclesByOwner CircleService (user_id \<lparr>user_id = 2, user_email = ''m@bivt''\<rparr>)
     demo_store = Inr 0 \<and>
   fst (create_handler CircleService \<lparr>user_id = 2, user_email = ''m@bivt''\<rparr> ''Team C''
          demo_store) =
     Json 200 \<lparr>status_id = 200, status_errors = None, data = Data (CircleId 3)\<rparr>"
proof -
  have two: "getNumberCirclesByOwner CircleService
      (user_id \<lparr>user_id = 1, user_email = ''o@bivt''\<rparr>) demo_store = Inr 2"
    by (simp add: CircleService_def count_circles_by_owner_def demo_store_def)
  have none: "getNumberCirclesByOwner CircleService
      (user_id \<lparr>user_id = 2, user_email = ''m@bivt''\<rparr>) demo_store = Inr 0"
    by (simp add: CircleService_def count_circles_by_owner_def demo_store_def)
  have added: "addNewCircle CircleService 2 ''m@bivt'' ''Team C'' demo_store =
      (Inr 3, snd (add_new_circle 2 ''m@bivt'' ''Team C'' demo_store))"
    by (simp add: CircleService_def add_new_circle_def demo_store_def Let_def)
  show ?thesis
    using two none create_allowed_iff_below_quota [OF two, of "''Team C''"]
      create_allowed_iff_below_quota [OF none, of "''Team C''"]
    by (simp add: added)
qed

section \<open>The circles of a user\<close>

text \<open>
  C5: with the circle service modelled on the store, for every user with no membership
  row the handler of \<open>/byUser\<close> answers with the not-found helper (statement not
  rejected); and for no user and no store does it answer with a success that holds an
  empty list of circles.
\<close>

theorem byUser_not_found_without_membership:
  "(fault db = None \<and>
    \<not> (\<exists>CM \<in> set (tb_circle_member db). CM_userId CM = user_id authUser) \<longrightarrow>
      byUser_handler CircleService authUser db = FormatError404Json) \<and>
   byUser_handler CircleService authUser db \<noteq> Json 200 (Transport 200 None (Some (Circles [])))"
proof (intro conjI impI)
  assume "fault db = None \<and>
    \<not> (\<exists>CM \<in> set (tb_circle_member db). CM_userId CM = user_id authUser)"
  then have "GetCircleByUser CircleService (user_id authUser) db = Inr None"
    by (simp add: CircleService_def circles_by_user_none)
  then show "byUser_handler CircleService authUser db = FormatError404Json"
    by (rule byUser_handler_null)
next
  show "byUser_handler CircleService authUser db \<noteq>
      Json 200 (Transport 200 None (Some (Circles [])))"
    using circles_by_user_never_empty [of "user_id authUser" db]
    by (auto simp add: byUser_handler_def CircleService_def Transport_def
        split: sum.splits option.splits)
qed

theorem byUser_not_found_without_membership_witness:
  "fault demo_store = None \<and>
   \<not> (\<exists>CM \<in> set (tb_circle_member demo_store).
        CM_userId CM = user_id \<lparr>user_id = 3, user_email = ''n@bivt''\<rparr>) \<and>
   byUser_handler CircleService \<lparr>user_id = 3, user_email = ''n@bivt''\<rparr> demo_store =
     FormatError404Json"
proof -
  have alone: "\<not> (\<exists>CM \<in> set (tb_circle_member demo_store).
      CM_userId CM = user_id \<lparr>user_id = 3, user_email = ''n@bivt''\<rparr>)"
    by (simp add: demo_store_def)
  show ?thesis
    using demo_store_sound alone
      byUser_not_found_without_membership
        [of demo_store "\<lparr>user_id = 3, user_email = ''n@bivt''\<rparr>"]
    by blast
qed

end
